theory Spec2Isabelle
  imports Complex_Main "HOL-Library.Monad_Syntax"
begin

section \<open>Data model\<close>

text \<open>
  The header \<open>include/eos/render/opencv/draw_utils.hpp\<close> holds two functions,
  \<open>draw_wireframe\<close> and \<open>draw_texcoords\<close>. Both walk the triangle list of a mesh and
  call OpenCV's \<open>cv::line\<close> on an image.

  Numbers. A C++ \<open>float\<close> is modelled by the real number it denotes: every finite float is
  a real, and the only arithmetic the header does itself is one multiplication per texture
  coordinate. Rounding of that product, infinities and NaN are outside the model.
  Eigen's fixed-size vectors are tuples, a \<open>Matrix4f\<close> is the tuple of its four rows.
\<close>

type_synonym float = real
type_synonym Vector2f = "float \<times> float"
type_synonym Vector3f = "float \<times> float \<times> float"
type_synonym Vector4f = "float \<times> float \<times> float \<times> float"
type_synonym Matrix4f = "Vector4f \<times> Vector4f \<times> Vector4f \<times> Vector4f"

text \<open>
  \<open>core::Mesh\<close>: the fields the two functions read. \<open>tvi\<close> is a
  \<open>std::vector<std::array<int, 3>>\<close>, so an index is a (signed) \<open>int\<close>.
\<close>

record Mesh =
  vertices :: "Vector3f list"
  texcoords :: "Vector2f list"
  tvi :: "(int \<times> int \<times> int) list"

text \<open>
  \<open>std::vector::operator[]\<close> does no bounds check: an index outside the vector is
  undefined behaviour. The model makes that a failure (\<open>None\<close>), which every caller
  propagates.
\<close>

definition vec_at :: "'a list \<Rightarrow> int \<Rightarrow> 'a option" where
  "vec_at xs i = (if 0 \<le> i \<and> i < int (length xs) then Some (xs ! nat i) else None)"

subsection \<open>OpenCV values\<close>

text \<open>
  \<open>cv::Scalar\<close> has four \<open>double\<close> channels. Its constructor is
  \<open>Scalar_(v0, v1, v2 = 0, v3 = 0)\<close>: channels that are not given are zero.
\<close>

datatype Scalar = Scalar (val0: real) (val1: real) (val2: real) (val3: real)

definition Scalar3 :: "real \<Rightarrow> real \<Rightarrow> real \<Rightarrow> Scalar" where
  "Scalar3 a b c = Scalar a b c 0"

text \<open>
  The point arguments of \<open>cv::line\<close> as the call sites build them: \<open>cv::Point\<close> has
  \<open>int\<close> coordinates, \<open>cv::Point2f\<close> has \<open>float\<close> coordinates.
\<close>

datatype cv_point = Point int int | Point2f float float

text \<open>
  \<open>cv::Point(p.x(), p.y())\<close> with \<open>float\<close> arguments converts each of them to
  \<open>int\<close>. The conversion of C++ discards the fractional part (truncation towards zero);
  it is undefined when the truncated value is not representable in a 32-bit \<open>int\<close>.
\<close>

definition trunc :: "real \<Rightarrow> int" where
  "trunc x = (if 0 \<le> x then \<lfloor>x\<rfloor> else \<lceil>x\<rceil>)"

definition float_to_int :: "float \<Rightarrow> int option" where
  "float_to_int x =
     (if - 2147483648 \<le> trunc x \<and> trunc x \<le> 2147483647 then Some (trunc x) else None)"

definition cv_Point :: "float \<Rightarrow> float \<Rightarrow> cv_point option" where
  "cv_Point x y = do {
     i \<leftarrow> float_to_int x;
     j \<leftarrow> float_to_int y;
     Some (Point i j)
   }"

text \<open>
  \<open>cv::Mat\<close>: the header fields the code reads (\<open>rows\<close>, \<open>cols\<close>), the element type
  and the pixel buffer. A pixel is the list of its channel values; \<open>data = None\<close> is the
  null data pointer of a matrix that was never allocated.
\<close>

datatype mat_type = CV_8UC1 | CV_8UC3 | CV_8UC4 | CV_32FC1 | CV_32FC3 | CV_32FC4

fun channels :: "mat_type \<Rightarrow> nat" where
  "channels CV_8UC1 = 1"
| "channels CV_8UC3 = 3"
| "channels CV_8UC4 = 4"
| "channels CV_32FC1 = 1"
| "channels CV_32FC3 = 3"
| "channels CV_32FC4 = 4"

record Mat =
  rows :: int
  cols :: int
  mtype :: mat_type
  data :: "real list list list option"

text \<open>\<open>cv::Mat()\<close>, the default argument of \<open>draw_texcoords\<close>.\<close>

definition Mat_default :: Mat where
  "Mat_default = \<lparr>rows = 0, cols = 0, mtype = CV_8UC1, data = None\<rparr>"

text \<open>\<open>cv::Mat::empty()\<close>: no buffer, or no element.\<close>

definition Mat_empty :: "Mat \<Rightarrow> bool" where
  "Mat_empty m = (data m = None \<or> rows m * cols m = 0)"

text \<open>
  \<open>cv::Mat(rows, cols, type, scalar)\<close> allocates the buffer and sets every pixel to the
  scalar, each channel converted with \<open>saturate_cast\<close>: for an 8-bit unsigned channel,
  rounded to the nearest integer (ties to even) and clamped to \<open>0..255\<close>.
\<close>

definition cvRound :: "real \<Rightarrow> int" where
  "cvRound x =
     (if x - of_int \<lfloor>x\<rfloor> < 1 / 2 then \<lfloor>x\<rfloor>
      else if 1 / 2 < x - of_int \<lfloor>x\<rfloor> then \<lfloor>x\<rfloor> + 1
      else if even \<lfloor>x\<rfloor> then \<lfloor>x\<rfloor> else \<lfloor>x\<rfloor> + 1)"

fun saturate_cast :: "mat_type \<Rightarrow> real \<Rightarrow> real" where
  "saturate_cast CV_32FC1 x = x"
| "saturate_cast CV_32FC3 x = x"
| "saturate_cast CV_32FC4 x = x"
| "saturate_cast t x = of_int (max 0 (min 255 (cvRound x)))"

definition pixel_of :: "mat_type \<Rightarrow> Scalar \<Rightarrow> real list" where
  "pixel_of t s = map (saturate_cast t) (take (channels t) [val0 s, val1 s, val2 s, val3 s])"

definition Mat_filled :: "int \<Rightarrow> int \<Rightarrow> mat_type \<Rightarrow> Scalar \<Rightarrow> Mat" where
  "Mat_filled r c t s =
     \<lparr>rows = r, cols = c, mtype = t,
      data = Some (replicate (nat r) (replicate (nat c) (pixel_of t s)))\<rparr>"

text \<open>
  \<open>cv::line(image, pt1, pt2, color)\<close> is OpenCV's: the model takes it as a parameter
  \<open>line_fn\<close>, a function from the image and the three arguments to the image after the
  call. (A \<open>cv::Mat\<close> passed by value shares its pixel buffer, so the caller sees the
  pixels the callee wrote; the model returns the image instead.)
\<close>

type_synonym line_prim = "Mat \<Rightarrow> cv_point \<Rightarrow> cv_point \<Rightarrow> Scalar \<Rightarrow> Mat"

text \<open>
  \<open>project\<close> (\<open>eos/render/matrix_projection.hpp\<close>) and
  \<open>are_vertices_ccw_in_screen_space\<close> (\<open>eos/render/detail/utils.hpp\<close>) are included,
  not defined, by the header; \<open>draw_wireframe\<close> takes them as parameters too.
\<close>

type_synonym project_prim = "Vector3f \<Rightarrow> Matrix4f \<Rightarrow> Matrix4f \<Rightarrow> Vector4f \<Rightarrow> Vector3f"
type_synonym ccw_prim = "Vector2f \<Rightarrow> Vector2f \<Rightarrow> Vector2f \<Rightarrow> bool"

section \<open>The two renderers\<close>

text \<open>A range-based \<open>for\<close> over a vector, with a body that may fail.\<close>

fun for_each :: "('s \<Rightarrow> 'a \<Rightarrow> 's option) \<Rightarrow> 's \<Rightarrow> 'a list \<Rightarrow> 's option" where
  "for_each body s [] = Some s"
| "for_each body s (x # xs) = do { s' \<leftarrow> body s x; for_each body s' xs }"

text \<open>
  Eigen accessors: \<open>p.x()\<close>, \<open>p.y()\<close>, \<open>p.z()\<close> and \<open>p.head<2>()\<close> of a
  \<open>Vector3f\<close>.
\<close>

definition vec_x :: "Vector3f \<Rightarrow> float" where
  "vec_x p = fst p"

definition vec_y :: "Vector3f \<Rightarrow> float" where
  "vec_y p = fst (snd p)"

definition vec_z :: "Vector3f \<Rightarrow> float" where
  "vec_z p = snd (snd p)"

definition head2 :: "Vector3f \<Rightarrow> Vector2f" where
  "head2 p = (vec_x p, vec_y p)"

text \<open>
  The body of the loop of \<open>draw_wireframe\<close> (lines 58 to 66): three vertex reads and
  projections, the orientation test, and inside it three calls of \<open>cv::line\<close>, each with
  two freshly built \<open>cv::Point\<close>s.
\<close>

definition wireframe_triangle ::
  "line_prim \<Rightarrow> project_prim \<Rightarrow> ccw_prim \<Rightarrow> Mesh \<Rightarrow> Matrix4f \<Rightarrow> Matrix4f \<Rightarrow> Vector4f \<Rightarrow>
   Scalar \<Rightarrow> Mat \<Rightarrow> int \<times> int \<times> int \<Rightarrow> Mat option" where
  "wireframe_triangle line_fn project_fn ccw_fn mesh modelview projection viewport color
     img triangle =
   (case triangle of (t0, t1, t2) \<Rightarrow> do {
      w1 \<leftarrow> vec_at (vertices mesh) t0;
      let p1 = project_fn w1 modelview projection viewport;
      w2 \<leftarrow> vec_at (vertices mesh) t1;
      let p2 = project_fn w2 modelview projection viewport;
      w3 \<leftarrow> vec_at (vertices mesh) t2;
      let p3 = project_fn w3 modelview projection viewport;
      if ccw_fn (head2 p1) (head2 p2) (head2 p3) then do {
        a1 \<leftarrow> cv_Point (vec_x p1) (vec_y p1);
        b1 \<leftarrow> cv_Point (vec_x p2) (vec_y p2);
        let img1 = line_fn img a1 b1 color;
        a2 \<leftarrow> cv_Point (vec_x p2) (vec_y p2);
        b2 \<leftarrow> cv_Point (vec_x p3) (vec_y p3);
        let img2 = line_fn img1 a2 b2 color;
        a3 \<leftarrow> cv_Point (vec_x p3) (vec_y p3);
        b3 \<leftarrow> cv_Point (vec_x p1) (vec_y p1);
        Some (line_fn img2 a3 b3 color)
      } else Some img
    })"

text \<open>
  \<open>draw_wireframe\<close>. The last argument is optional in C++
  (\<open>color = cv::Scalar(0, 255, 0, 255)\<close>): \<open>None\<close> is the call that leaves it out.
  The function returns \<open>void\<close>; the result here is the image the caller sees afterwards.
\<close>

definition draw_wireframe ::
  "line_prim \<Rightarrow> project_prim \<Rightarrow> ccw_prim \<Rightarrow> Mat \<Rightarrow> Mesh \<Rightarrow> Matrix4f \<Rightarrow> Matrix4f \<Rightarrow> Vector4f \<Rightarrow>
   Scalar option \<Rightarrow> Mat option" where
  "draw_wireframe line_fn project_fn ccw_fn img mesh modelview projection viewport color_arg =
     (let color = (case color_arg of None \<Rightarrow> Scalar 0 255 0 255 | Some c \<Rightarrow> c)
      in for_each
           (wireframe_triangle line_fn project_fn ccw_fn mesh modelview projection viewport color)
           img (tvi mesh))"

text \<open>
  The body of the loop of \<open>draw_texcoords\<close> (lines 93 to 107): three calls of
  \<open>cv::line\<close>; every argument reads \<open>image.cols\<close> and \<open>image.rows\<close> of the image as it
  is at that call.
\<close>

definition uv_point :: "Mat \<Rightarrow> Vector2f \<Rightarrow> cv_point" where
  "uv_point img t = Point2f (fst t * of_int (cols img)) (snd t * of_int (rows img))"

definition texcoords_triangle ::
  "line_prim \<Rightarrow> Mesh \<Rightarrow> Mat \<Rightarrow> int \<times> int \<times> int \<Rightarrow> Mat option" where
  "texcoords_triangle line_fn mesh img triIdx =
   (case triIdx of (t0, t1, t2) \<Rightarrow> do {
      a1 \<leftarrow> vec_at (texcoords mesh) t0;
      b1 \<leftarrow> vec_at (texcoords mesh) t1;
      let img1 = line_fn img (uv_point img a1) (uv_point img b1) (Scalar3 255 0 0);
      a2 \<leftarrow> vec_at (texcoords mesh) t1;
      b2 \<leftarrow> vec_at (texcoords mesh) t2;
      let img2 = line_fn img1 (uv_point img1 a2) (uv_point img1 b2) (Scalar3 255 0 0);
      a3 \<leftarrow> vec_at (texcoords mesh) t2;
      b3 \<leftarrow> vec_at (texcoords mesh) t0;
      Some (line_fn img2 (uv_point img2 a3) (uv_point img2 b3) (Scalar3 255 0 0))
    })"

text \<open>
  \<open>draw_texcoords\<close>. The image is optional in C++ (\<open>image = cv::Mat()\<close>): \<open>None\<close> is
  the call that leaves it out.
\<close>

definition draw_texcoords :: "line_prim \<Rightarrow> Mesh \<Rightarrow> Mat option \<Rightarrow> Mat option" where
  "draw_texcoords line_fn mesh image_arg =
     (let img0 = (case image_arg of None \<Rightarrow> Mat_default | Some m \<Rightarrow> m);
          img = (if Mat_empty img0 then Mat_filled 512 512 CV_8UC4 (Scalar 0 0 0 255)
                   else img0)
      in for_each (texcoords_triangle line_fn mesh) img (tvi mesh))"

section \<open>Draw calls\<close>

text \<open>
  What a renderer does to the image is the sequence of \<open>cv::line\<close> calls it makes. A
  call is recorded with its two points and its colour; \<open>replay\<close> makes the calls of a
  list, in order, on an image.
\<close>

datatype draw_call = Line cv_point cv_point Scalar

fun issue :: "line_prim \<Rightarrow> Mat \<Rightarrow> draw_call \<Rightarrow> Mat" where
  "issue line_fn img (Line a b c) = line_fn img a b c"

definition replay :: "line_prim \<Rightarrow> Mat \<Rightarrow> draw_call list \<Rightarrow> Mat" where
  "replay line_fn img calls = foldl (issue line_fn) img calls"

text \<open>
  The screen position of the vertex with index \<open>i\<close>, and the pixel \<open>cv::Point\<close> built
  from it; both fail where the code's behaviour is undefined.
\<close>

definition screen_point ::
  "project_prim \<Rightarrow> Mesh \<Rightarrow> Matrix4f \<Rightarrow> Matrix4f \<Rightarrow> Vector4f \<Rightarrow> int \<Rightarrow> Vector3f option" where
  "screen_point project_fn mesh modelview projection viewport i =
     map_option (\<lambda>w. project_fn w modelview projection viewport) (vec_at (vertices mesh) i)"

definition pixel_point :: "Vector3f \<Rightarrow> cv_point option" where
  "pixel_point p = cv_Point (vec_x p) (vec_y p)"

text \<open>The colour \<open>draw_wireframe\<close> draws with: the one given, or the default.\<close>

definition edge_color :: "Scalar option \<Rightarrow> Scalar" where
  "edge_color color_arg = (case color_arg of None \<Rightarrow> Scalar 0 255 0 255 | Some c \<Rightarrow> c)"

text \<open>The calls \<open>draw_wireframe\<close> makes for one triangle.\<close>

definition triangle_edges ::
  "project_prim \<Rightarrow> ccw_prim \<Rightarrow> Mesh \<Rightarrow> Matrix4f \<Rightarrow> Matrix4f \<Rightarrow> Vector4f \<Rightarrow> Scalar \<Rightarrow>
   int \<times> int \<times> int \<Rightarrow> draw_call list option" where
  "triangle_edges project_fn ccw_fn mesh modelview projection viewport color triangle =
   (case triangle of (t0, t1, t2) \<Rightarrow> do {
      p1 \<leftarrow> screen_point project_fn mesh modelview projection viewport t0;
      p2 \<leftarrow> screen_point project_fn mesh modelview projection viewport t1;
      p3 \<leftarrow> screen_point project_fn mesh modelview projection viewport t2;
      if ccw_fn (head2 p1) (head2 p2) (head2 p3) then do {
        q1 \<leftarrow> pixel_point p1;
        q2 \<leftarrow> pixel_point p2;
        q3 \<leftarrow> pixel_point p3;
        Some [Line q1 q2 color, Line q2 q3 color, Line q3 q1 color]
      } else Some []
    })"

text \<open>The calls \<open>draw_texcoords\<close> makes for one triangle, on a canvas \<open>img\<close>.\<close>

definition uv_edges :: "Mesh \<Rightarrow> Mat \<Rightarrow> int \<times> int \<times> int \<Rightarrow> draw_call list option" where
  "uv_edges mesh img triIdx =
   (case triIdx of (t0, t1, t2) \<Rightarrow> do {
      c0 \<leftarrow> vec_at (texcoords mesh) t0;
      c1 \<leftarrow> vec_at (texcoords mesh) t1;
      c2 \<leftarrow> vec_at (texcoords mesh) t2;
      Some [Line (uv_point img c0) (uv_point img c1) (Scalar 255 0 0 0),
            Line (uv_point img c1) (uv_point img c2) (Scalar 255 0 0 0),
            Line (uv_point img c2) (uv_point img c0) (Scalar 255 0 0 0)]
    })"

text \<open>\<open>cv::line\<close> draws into the pixel buffer; it does not resize the image.\<close>

definition keeps_size :: "line_prim \<Rightarrow> bool" where
  "keeps_size line_fn =
     (\<forall>img a b c. cols (line_fn img a b c) = cols img \<and> rows (line_fn img a b c) = rows img)"

text \<open>The canvas \<open>draw_texcoords\<close> draws into (lines 86 to 89).\<close>

definition canvas :: "Mat option \<Rightarrow> Mat" where
  "canvas image_arg =
     (case image_arg of
        None \<Rightarrow> Mat_filled 512 512 CV_8UC4 (Scalar 0 0 0 255)
      | Some m \<Rightarrow> if Mat_empty m then Mat_filled 512 512 CV_8UC4 (Scalar 0 0 0 255) else m)"

section \<open>The included helpers\<close>

text \<open>
  Modelled from the spec: the 4-by-4 matrix times vector product of Eigen that
  \<open>project\<close> uses; Eigen is not part of the sources at hand.
\<close>

definition mat_vec :: "Matrix4f \<Rightarrow> Vector4f \<Rightarrow> Vector4f" where
  "mat_vec m v =
     (case m of (r0, r1, r2, r3) \<Rightarrow>
        (let dot = (\<lambda>r. case r of (a, b, c, d) \<Rightarrow> case v of (e, f, g, h) \<Rightarrow>
                      a * e + b * f + c * g + d * h)
         in (dot r0, dot r1, dot r2, dot r3)))"

text \<open>
  Modelled from the spec: \<open>project\<close> of \<open>eos/render/matrix_projection.hpp\<close>, which
  the header includes and the sources at hand do not hold. Section 4.1 of the
  specification: the point is taken as homogeneous with \<open>w = 1\<close>; the model-view matrix and
  then the projection matrix give clip coordinates; \<open>x\<close>, \<open>y\<close> and \<open>z\<close> are divided by
  \<open>w\<close>; the viewport \<open>(x, y, width, height)\<close> maps the result to pixels, flipping \<open>y\<close>.
  The depth is carried through. (Where \<open>w = 0\<close> the specification leaves the result to
  floating-point division; the quotient of HOL is \<open>0\<close> there, and nothing below is
  claimed for that case.)
\<close>

definition project :: "Vector3f \<Rightarrow> Matrix4f \<Rightarrow> Matrix4f \<Rightarrow> Vector4f \<Rightarrow> Vector3f" where
  "project point modelview projection viewport =
     (case point of (px, py, pz) \<Rightarrow>
      case mat_vec projection (mat_vec modelview (px, py, pz, 1)) of (cx, cy, cz, cw) \<Rightarrow>
      case viewport of (vx, vy, vw, vh) \<Rightarrow>
        (let ndc_x = cx / cw; ndc_y = cy / cw; ndc_z = cz / cw
         in (vx + (ndc_x + 1) / 2 * vw, vy + (1 - ndc_y) / 2 * vh, ndc_z)))"

text \<open>
  Modelled from the spec: \<open>are_vertices_ccw_in_screen_space\<close> of
  \<open>eos/render/detail/utils.hpp\<close>, which the header includes and the sources at hand do
  not hold. Section 4.2 of the specification: the cross product of the edge vectors
  \<open>p2 - p1\<close> and \<open>p3 - p1\<close>, with the sign that means counter-clockwise on a screen whose
  \<open>y\<close> axis points down (negative), and zero area counted as not counter-clockwise.
\<close>

definition are_vertices_ccw_in_screen_space :: "Vector2f \<Rightarrow> Vector2f \<Rightarrow> Vector2f \<Rightarrow> bool" where
  "are_vertices_ccw_in_screen_space p1 p2 p3 =
     (let dx12 = fst p2 - fst p1; dy12 = snd p2 - snd p1;
          dx13 = fst p3 - fst p1; dy13 = snd p3 - snd p1
      in dx12 * dy13 - dy12 * dx13 < 0)"

text \<open>
  Winding, stated apart from the classifier. \<open>signed_area2\<close> is the surveyor's formula:
  twice the area of the triangle, positive exactly when \<open>a\<close>, \<open>b\<close>, \<open>c\<close> turn
  counter-clockwise in a frame whose \<open>y\<close> axis points up. A screen has its \<open>y\<close> axis
  pointing down: what the viewer sees is the mirror image, \<open>flip_y\<close>. \<open>winding\<close> is
  \<open>1\<close> for points the viewer sees turning counter-clockwise, \<open>- 1\<close> for clockwise and
  \<open>0\<close> for collinear points.
\<close>

definition signed_area2 :: "Vector2f \<Rightarrow> Vector2f \<Rightarrow> Vector2f \<Rightarrow> real" where
  "signed_area2 a b c =
     fst a * snd b - fst b * snd a + (fst b * snd c - fst c * snd b)
       + (fst c * snd a - fst a * snd c)"

definition flip_y :: "Vector2f \<Rightarrow> Vector2f" where
  "flip_y p = (fst p, - snd p)"

definition winding :: "Vector2f \<Rightarrow> Vector2f \<Rightarrow> Vector2f \<Rightarrow> real" where
  "winding a b c = sgn (signed_area2 (flip_y a) (flip_y b) (flip_y c))"

section \<open>A line primitive and a mesh to run the renderers on\<close>

text \<open>
  The smallest line primitive: it colours the two end points, where they lie in the image.
  A \<open>cv::Point2f\<close> is rounded to a pixel as OpenCV's conversion to \<open>cv::Point\<close> does.
\<close>

fun pixel_xy :: "cv_point \<Rightarrow> int \<times> int" where
  "pixel_xy (Point i j) = (i, j)"
| "pixel_xy (Point2f u v) = (cvRound u, cvRound v)"

definition plot :: "Mat \<Rightarrow> cv_point \<Rightarrow> Scalar \<Rightarrow> Mat" where
  "plot img pt color =
     (case data img of
        None \<Rightarrow> img
      | Some px \<Rightarrow>
          (case pixel_xy pt of (i, j) \<Rightarrow>
             if 0 \<le> i \<and> i < cols img \<and> 0 \<le> j \<and> j < rows img
                \<and> nat j < length px \<and> nat i < length (px ! nat j)
             then img\<lparr>data := Some (px[nat j := (px ! nat j)[nat i := pixel_of (mtype img) color]])\<rparr>
             else img))"

definition endpoint_line :: line_prim where
  "endpoint_line img a b color = plot (plot img a color) b color"

text \<open>Two images with identical pixel contents: same size, same element type, same pixels.\<close>

definition same_pixels :: "Mat \<Rightarrow> Mat \<Rightarrow> bool" where
  "same_pixels a b =
     (rows a = rows b \<and> cols a = cols b \<and> mtype a = mtype b \<and> data a = data b)"

text \<open>
  A mesh of two triangles over the same three vertices, listed in both orders, with the
  texture coordinates of the three corners of the unit square's lower left half.
\<close>

definition two_sided_mesh :: Mesh where
  "two_sided_mesh =
     \<lparr>vertices = [(0, 0, 0), (1, 0, 0), (0, 1, 0)],
      texcoords = [(0, 0), (1, 0), (0, 1)],
      tvi = [(0, 1, 2), (0, 2, 1)]\<rparr>"

text \<open>The default canvas with its top left pixel set to \<open>(255, 0, 0, 0)\<close>.\<close>

definition corner :: "Mat" where
  "corner = \<lparr>rows = 512, cols = 512, mtype = CV_8UC4,
     data = Some ((replicate 512 (replicate 512 [0, 0, 0, 255]))
              [0 := (replicate 512 [0, 0, 0, 255])[0 := [255, 0, 0, 0]]])\<rparr>"

definition identity4 :: Matrix4f where
  "identity4 = ((1, 0, 0, 0), (0, 1, 0, 0), (0, 0, 1, 0), (0, 0, 0, 1))"

definition black3x3 :: Mat where
  "black3x3 = Mat_filled 3 3 CV_8UC4 (Scalar 0 0 0 255)"

section \<open>The renderers as sequences of draw calls\<close>

lemma replay_Nil: "replay line_fn img [] = img"
  by (simp add: replay_def)

lemma replay_append:
  "replay line_fn img (cs @ ds) = replay line_fn (replay line_fn img cs) ds"
  by (simp add: replay_def)

lemma for_each_replay:
  assumes body: "\<And>s t. body s t = map_option (replay line_fn s) (calls t)"
  shows "for_each body s ts =
         map_option (\<lambda>cs. replay line_fn s (concat cs)) (those (map calls ts))"
proof (induction ts arbitrary: s)
  case Nil
  show ?case by (simp add: replay_Nil)
next
  case (Cons t ts)
  show ?case
  proof (cases "calls t")
    case None
    with body [of s t] have "body s t = None" by simp
    with None show ?thesis by simp
  next
    case (Some c)
    with body [of s t] have "body s t = Some (replay line_fn s c)" by simp
    then have "for_each body s (t # ts) = for_each body (replay line_fn s c) ts" by simp
    also have "\<dots> = map_option (\<lambda>cs. replay line_fn (replay line_fn s c) (concat cs))
                      (those (map calls ts))"
      by (rule Cons.IH)
    also have "\<dots> = map_option (\<lambda>cs. replay line_fn s (concat cs)) (those (map calls (t # ts)))"
      using Some by (cases "those (map calls ts)") (simp_all add: replay_append)
    finally show ?thesis .
  qed
qed

lemma wireframe_triangle_replay:
  "wireframe_triangle line_fn project_fn ccw_fn mesh modelview projection viewport color img t =
   map_option (replay line_fn img)
     (triangle_edges project_fn ccw_fn mesh modelview projection viewport color t)"
  by (cases t)
     (auto simp: wireframe_triangle_def triangle_edges_def screen_point_def pixel_point_def
        replay_def Let_def split: Option.bind_splits)

lemma draw_wireframe_replay:
  "draw_wireframe line_fn project_fn ccw_fn img mesh modelview projection viewport color_arg =
   map_option (\<lambda>cs. replay line_fn img (concat cs))
     (those (map (triangle_edges project_fn ccw_fn mesh modelview projection viewport
                    (edge_color color_arg)) (tvi mesh)))"
  unfolding draw_wireframe_def edge_color_def
  by (simp add: for_each_replay [OF wireframe_triangle_replay])

lemma triangle_edges_cases:
  assumes "triangle_edges project_fn ccw_fn mesh modelview projection viewport color (t0, t1, t2)
           = Some es"
  shows "\<exists>p1 p2 p3.
           screen_point project_fn mesh modelview projection viewport t0 = Some p1
         \<and> screen_point project_fn mesh modelview projection viewport t1 = Some p2
         \<and> screen_point project_fn mesh modelview projection viewport t2 = Some p3
         \<and> (if ccw_fn (head2 p1) (head2 p2) (head2 p3)
            then \<exists>q1 q2 q3. pixel_point p1 = Some q1 \<and> pixel_point p2 = Some q2
                   \<and> pixel_point p3 = Some q3
                   \<and> es = [Line q1 q2 color, Line q2 q3 color, Line q3 q1 color]
            else es = [])"
proof -
  from assms obtain p1 p2 p3 where
    p: "screen_point project_fn mesh modelview projection viewport t0 = Some p1"
       "screen_point project_fn mesh modelview projection viewport t1 = Some p2"
       "screen_point project_fn mesh modelview projection viewport t2 = Some p3"
    and rest: "(if ccw_fn (head2 p1) (head2 p2) (head2 p3)
                then do { q1 \<leftarrow> pixel_point p1; q2 \<leftarrow> pixel_point p2; q3 \<leftarrow> pixel_point p3;
                          Some [Line q1 q2 color, Line q2 q3 color, Line q3 q1 color] }
                else Some []) = Some es"
    by (auto simp: triangle_edges_def bind_eq_Some_conv)
  show ?thesis
  proof (cases "ccw_fn (head2 p1) (head2 p2) (head2 p3)")
    case True
    with rest obtain q1 q2 q3 where
      "pixel_point p1 = Some q1" "pixel_point p2 = Some q2" "pixel_point p3 = Some q3"
      "es = [Line q1 q2 color, Line q2 q3 color, Line q3 q1 color]"
      by (auto simp: bind_eq_Some_conv)
    with p True show ?thesis by simp
  next
    case False
    with rest have "es = []" by simp
    with p False show ?thesis by simp
  qed
qed

lemma uv_point_size:
  "cols a = cols b \<Longrightarrow> rows a = rows b \<Longrightarrow> uv_point a t = uv_point b t"
  by (simp add: uv_point_def)

lemma uv_edges_size:
  "cols a = cols b \<Longrightarrow> rows a = rows b \<Longrightarrow> uv_edges mesh a t = uv_edges mesh b t"
  by (cases t) (simp add: uv_edges_def uv_point_size [of a b])

lemma replay_keeps_size:
  assumes "keeps_size line_fn"
  shows "cols (replay line_fn img cs) = cols img \<and> rows (replay line_fn img cs) = rows img"
proof (induction cs arbitrary: img)
  case Nil
  show ?case by (simp add: replay_def)
next
  case (Cons c cs)
  obtain a b k where c: "c = Line a b k" by (cases c)
  have "replay line_fn img (c # cs) = replay line_fn (line_fn img a b k) cs"
    by (simp add: replay_def c)
  moreover have "cols (line_fn img a b k) = cols img \<and> rows (line_fn img a b k) = rows img"
    using assms by (simp add: keeps_size_def)
  ultimately show ?case using Cons.IH [of "line_fn img a b k"] by simp
qed

lemma texcoords_triangle_replay:
  assumes "keeps_size line_fn"
  shows "texcoords_triangle line_fn mesh img t =
         map_option (replay line_fn img) (uv_edges mesh img t)"
proof -
  have size: "uv_point (line_fn i a b k) = uv_point i" for i a b k
    using assms by (auto simp: keeps_size_def uv_point_def)
  show ?thesis
    by (cases t)
       (auto simp: texcoords_triangle_def uv_edges_def replay_def Let_def Scalar3_def size
          split: Option.bind_splits)
qed

lemma texcoords_loop_replay:
  assumes "keeps_size line_fn"
  shows "for_each (texcoords_triangle line_fn mesh) s ts =
         map_option (\<lambda>cs. replay line_fn s (concat cs)) (those (map (uv_edges mesh s) ts))"
proof (induction ts arbitrary: s)
  case Nil
  show ?case by (simp add: replay_Nil)
next
  case (Cons t ts)
  show ?case
  proof (cases "uv_edges mesh s t")
    case None
    then show ?thesis by (simp add: texcoords_triangle_replay [OF assms])
  next
    case (Some c)
    let ?s' = "replay line_fn s c"
    have same: "map (uv_edges mesh ?s') ts = map (uv_edges mesh s) ts"
      using replay_keeps_size [OF assms, of s c] by (simp add: uv_edges_size [of ?s' s])
    have "for_each (texcoords_triangle line_fn mesh) s (t # ts) =
          for_each (texcoords_triangle line_fn mesh) ?s' ts"
      using Some by (simp add: texcoords_triangle_replay [OF assms])
    also have "\<dots> = map_option (\<lambda>cs. replay line_fn ?s' (concat cs))
                      (those (map (uv_edges mesh s) ts))"
      by (simp add: Cons.IH same)
    also have "\<dots> = map_option (\<lambda>cs. replay line_fn s (concat cs))
                      (those (map (uv_edges mesh s) (t # ts)))"
      using Some by (cases "those (map (uv_edges mesh s) ts)") (simp_all add: replay_append)
    finally show ?thesis .
  qed
qed

lemma Mat_empty_default: "Mat_empty Mat_default"
  by (simp add: Mat_empty_def Mat_default_def)

lemma draw_texcoords_canvas:
  "draw_texcoords line_fn mesh image_arg =
   for_each (texcoords_triangle line_fn mesh) (canvas image_arg) (tvi mesh)"
  by (cases image_arg) (simp_all add: draw_texcoords_def canvas_def Mat_empty_default)

lemma draw_texcoords_replay:
  assumes "keeps_size line_fn"
  shows "draw_texcoords line_fn mesh image_arg =
         map_option (\<lambda>cs. replay line_fn (canvas image_arg) (concat cs))
           (those (map (uv_edges mesh (canvas image_arg)) (tvi mesh)))"
  by (simp add: draw_texcoords_canvas texcoords_loop_replay [OF assms])

lemma black3x3_not_empty: "\<not> Mat_empty black3x3"
  by (simp add: Mat_empty_def black3x3_def Mat_filled_def)

lemma keeps_size_endpoint_line: "keeps_size endpoint_line"
  by (auto simp: keeps_size_def endpoint_line_def plot_def split: option.splits prod.splits)

lemma tvi_two_sided: "tvi two_sided_mesh = [(0, 1, 2), (0, 2, 1)]"
  by (simp add: two_sided_mesh_def)

lemma project_two_sided:
  "project (0, 0, 0) identity4 identity4 (0, 0, 2, 2) = (1, 1, 0)"
  "project (1, 0, 0) identity4 identity4 (0, 0, 2, 2) = (2, 1, 0)"
  "project (0, 1, 0) identity4 identity4 (0, 0, 2, 2) = (1, 0, 0)"
  by (simp_all add: project_def mat_vec_def identity4_def)

lemma screen_point_two_sided:
  "screen_point project two_sided_mesh identity4 identity4 (0, 0, 2, 2) 0 = Some (1, 1, 0)"
  "screen_point project two_sided_mesh identity4 identity4 (0, 0, 2, 2) 1 = Some (2, 1, 0)"
  "screen_point project two_sided_mesh identity4 identity4 (0, 0, 2, 2) 2 = Some (1, 0, 0)"
  by (simp_all add: screen_point_def two_sided_mesh_def vec_at_def project_two_sided)

lemma pixel_point_two_sided:
  "pixel_point (1, 1, 0) = Some (Point 1 1)"
  "pixel_point (2, 1, 0) = Some (Point 2 1)"
  "pixel_point (1, 0, 0) = Some (Point 1 0)"
  by (simp_all add: pixel_point_def cv_Point_def float_to_int_def trunc_def vec_x_def vec_y_def)

lemma ccw_two_sided:
  "are_vertices_ccw_in_screen_space (head2 (1, 1, 0)) (head2 (2, 1, 0)) (head2 (1, 0, 0))"
  "\<not> are_vertices_ccw_in_screen_space (head2 (1, 1, 0)) (head2 (1, 0, 0)) (head2 (2, 1, 0))"
  by (simp_all add: are_vertices_ccw_in_screen_space_def head2_def vec_x_def vec_y_def)

lemma triangle_edges_two_sided:
  "triangle_edges project are_vertices_ccw_in_screen_space two_sided_mesh identity4 identity4
     (0, 0, 2, 2) c (0, 1, 2)
   = Some [Line (Point 1 1) (Point 2 1) c, Line (Point 2 1) (Point 1 0) c,
           Line (Point 1 0) (Point 1 1) c]"
  "triangle_edges project are_vertices_ccw_in_screen_space two_sided_mesh identity4 identity4
     (0, 0, 2, 2) c (0, 2, 1) = Some []"
  by (simp_all add: triangle_edges_def screen_point_two_sided pixel_point_two_sided ccw_two_sided)

lemma uv_edges_cases:
  assumes "uv_edges mesh cv (t0, t1, t2) = Some es"
  shows "\<exists>c0 c1 c2. vec_at (texcoords mesh) t0 = Some c0 \<and> vec_at (texcoords mesh) t1 = Some c1
           \<and> vec_at (texcoords mesh) t2 = Some c2
           \<and> es = [Line (uv_point cv c0) (uv_point cv c1) (Scalar 255 0 0 0),
                   Line (uv_point cv c1) (uv_point cv c2) (Scalar 255 0 0 0),
                   Line (uv_point cv c2) (uv_point cv c0) (Scalar 255 0 0 0)]"
  using assms by (auto simp: uv_edges_def bind_eq_Some_conv)

lemma canvas_black3x3: "canvas (Some black3x3) = black3x3"
  by (simp add: canvas_def black3x3_not_empty)

lemma size_black3x3: "cols black3x3 = 3" "rows black3x3 = 3"
  by (simp_all add: black3x3_def Mat_filled_def)

lemma texcoords_two_sided:
  "vec_at (texcoords two_sided_mesh) 0 = Some (0, 0)"
  "vec_at (texcoords two_sided_mesh) 1 = Some (1, 0)"
  "vec_at (texcoords two_sided_mesh) 2 = Some (0, 1)"
  by (simp_all add: two_sided_mesh_def vec_at_def)

lemma uv_edges_two_sided:
  "uv_edges two_sided_mesh cv (0, 1, 2) =
     Some [Line (Point2f 0 0) (Point2f (of_int (cols cv)) 0) (Scalar 255 0 0 0),
           Line (Point2f (of_int (cols cv)) 0) (Point2f 0 (of_int (rows cv))) (Scalar 255 0 0 0),
           Line (Point2f 0 (of_int (rows cv))) (Point2f 0 0) (Scalar 255 0 0 0)]"
  "uv_edges two_sided_mesh cv (0, 2, 1) =
     Some [Line (Point2f 0 0) (Point2f 0 (of_int (rows cv))) (Scalar 255 0 0 0),
           Line (Point2f 0 (of_int (rows cv))) (Point2f (of_int (cols cv)) 0) (Scalar 255 0 0 0),
           Line (Point2f (of_int (cols cv)) 0) (Point2f 0 0) (Scalar 255 0 0 0)]"
  by (simp_all add: uv_edges_def texcoords_two_sided uv_point_def)

lemma those_SomeD: "those xs = Some ys \<Longrightarrow> y \<in> set ys \<Longrightarrow> Some y \<in> set xs"
  by (induction xs arbitrary: ys) (auto split: option.splits)

lemma pixel_point_SomeD:
  "pixel_point p = Some q \<Longrightarrow> q = Point (trunc (vec_x p)) (trunc (vec_y p))"
  by (auto simp: pixel_point_def cv_Point_def float_to_int_def bind_eq_Some_conv
      split: if_splits)

lemma vec_at_SomeD: "vec_at xs i = Some v \<Longrightarrow> v \<in> set xs"
proof -
  assume "vec_at xs i = Some v"
  then have "nat i < length xs" "v = xs ! nat i"
    by (auto simp: vec_at_def split: if_splits)
  then show ?thesis by simp
qed

lemma screen_point_SomeD:
  "screen_point project_fn mesh modelview projection viewport i = Some p \<Longrightarrow>
   p \<in> (\<lambda>w. project_fn w modelview projection viewport) ` set (vertices mesh)"
  by (auto simp: screen_point_def dest: vec_at_SomeD)

lemma triangle_edges_shifted:
  "triangle_edges project are_vertices_ccw_in_screen_space two_sided_mesh identity4 identity4
     (- 3, 0, 3, 3) c (0, 1, 2)
   = Some [Line (Point (- 1) 1) (Point 0 1) c, Line (Point 0 1) (Point (- 1) 0) c,
           Line (Point (- 1) 0) (Point (- 1) 1) c]"
  "triangle_edges project are_vertices_ccw_in_screen_space two_sided_mesh identity4 identity4
     (- 3, 0, 3, 3) c (0, 2, 1) = Some []"
  by (simp_all add: triangle_edges_def screen_point_def two_sided_mesh_def vec_at_def
        project_def mat_vec_def identity4_def are_vertices_ccw_in_screen_space_def head2_def
        vec_x_def vec_y_def pixel_point_def cv_Point_def float_to_int_def trunc_def)

lemma replay_rel:
  assumes step: "\<And>a b p q c. R a b \<Longrightarrow> R (line_fn a p q c) (line_fn b p q c)"
  shows "R a b \<Longrightarrow> R (replay line_fn a cs) (replay line_fn b cs)"
proof (induction cs arbitrary: a b)
  case Nil
  then show ?case by (simp add: replay_def)
next
  case (Cons c cs)
  obtain p q k where c: "c = Line p q k" by (cases c)
  from Cons.prems have "R (line_fn a p q k) (line_fn b p q k)" by (rule step)
  then have "R (replay line_fn (line_fn a p q k) cs) (replay line_fn (line_fn b p q k) cs)"
    by (rule Cons.IH)
  then show ?case by (simp add: replay_def c)
qed

lemma same_pixels_eq: "same_pixels a b \<Longrightarrow> a = b"
  by (cases a, cases b) (simp add: same_pixels_def)

lemma ccw_signed_area:
  "are_vertices_ccw_in_screen_space p1 p2 p3 \<longleftrightarrow> signed_area2 p1 p2 p3 < 0"
proof -
  have "(fst p2 - fst p1) * (snd p3 - snd p1) - (snd p2 - snd p1) * (fst p3 - fst p1)
        = signed_area2 p1 p2 p3"
    by (simp add: signed_area2_def algebra_simps)
  then show ?thesis
    by (simp only: are_vertices_ccw_in_screen_space_def Let_def)
qed

lemma signed_area2_flip:
  "signed_area2 (flip_y p1) (flip_y p2) (flip_y p3) = - signed_area2 p1 p2 p3"
  by (simp add: signed_area2_def flip_y_def)

lemma signed_area2_rotate: "signed_area2 p2 p3 p1 = signed_area2 p1 p2 p3"
  by (simp add: signed_area2_def)

lemma signed_area2_swap: "signed_area2 p2 p1 p3 = - signed_area2 p1 p2 p3"
  by (simp add: signed_area2_def)

lemma cvRound_int: "cvRound 0 = 0" "cvRound 512 = 512"
  by (simp_all add: cvRound_def)

lemma pixel_of_blue: "pixel_of CV_8UC4 (Scalar 255 0 0 0) = [255, 0, 0, 0]"
  by (simp add: pixel_of_def cvRound_def)

lemma plot_outside:
  "\<not> (0 \<le> fst (pixel_xy pt) \<and> fst (pixel_xy pt) < cols img
      \<and> 0 \<le> snd (pixel_xy pt) \<and> snd (pixel_xy pt) < rows img) \<Longrightarrow> plot img pt c = img"
  by (auto simp: plot_def split: option.splits prod.splits)

lemma plot_fresh_origin:
  "plot (Mat_filled 512 512 CV_8UC4 (Scalar 0 0 0 255)) (Point2f 0 0) (Scalar 255 0 0 0) = corner"
  by (simp add: plot_def Mat_filled_def pixel_of_def cvRound_def corner_def)

lemma plot_corner_origin:
  "plot corner (Point2f 0 0) (Scalar 255 0 0 0) = corner"
  by (simp add: plot_def pixel_of_blue corner_def cvRound_int)

lemma plot_corner_outside:
  "plot corner (Point2f 512 0) c = corner" "plot corner (Point2f 0 512) c = corner"
  by (simp_all add: plot_outside corner_def cvRound_int)

lemma size_Mat_filled: "cols (Mat_filled r c t s) = c" "rows (Mat_filled r c t s) = r"
  by (simp_all add: Mat_filled_def)

section \<open>A mesh without triangles\<close>

text \<open>
  C8 (amended). For a mesh whose triangle list is empty, \<open>draw_wireframe\<close> makes no draw
  call and returns the image as it was, whatever the line primitive is; \<open>draw_texcoords\<close>
  makes no draw call either and returns the untouched default canvas when no image is
  given, the untouched default canvas when the given image is empty, and the given image,
  untouched, when it is not empty.
\<close>

theorem empty_mesh_draws_nothing:
  assumes "tvi mesh = []"
  shows "draw_wireframe line_fn project_fn ccw_fn img mesh modelview projection viewport color_arg
           = Some img
       \<and> draw_texcoords line_fn mesh None = Some (Mat_filled 512 512 CV_8UC4 (Scalar 0 0 0 255))
       \<and> draw_texcoords line_fn mesh (Some m)
           = Some (if Mat_empty m then Mat_filled 512 512 CV_8UC4 (Scalar 0 0 0 255) else m)"
  using assms by (simp add: draw_wireframe_def draw_texcoords_canvas canvas_def)

theorem empty_mesh_draws_nothing_witness:
  "tvi \<lparr>vertices = [(0, 0, 0)], texcoords = [(0, 0)], tvi = []\<rparr> = []
   \<and> draw_wireframe endpoint_line project are_vertices_ccw_in_screen_space black3x3
        \<lparr>vertices = [(0, 0, 0)], texcoords = [(0, 0)], tvi = []\<rparr>
        identity4 identity4 (0, 0, 2, 2) None = Some black3x3
   \<and> draw_texcoords endpoint_line \<lparr>vertices = [(0, 0, 0)], texcoords = [(0, 0)], tvi = []\<rparr>
        (Some black3x3) = Some black3x3"
  using empty_mesh_draws_nothing
    [of "\<lparr>vertices = [(0, 0, 0)], texcoords = [(0, 0)], tvi = []\<rparr>" endpoint_line project
        are_vertices_ccw_in_screen_space black3x3 identity4 identity4 "(0, 0, 2, 2)" None black3x3]
  by (simp add: black3x3_not_empty)

text \<open>
  C8 as stated fails for an image that is given and empty: a matrix of no rows and a
  hundred columns is not returned; the default canvas is.
\<close>

theorem empty_mesh_empty_canvas_replaced:
  "tvi \<lparr>vertices = [], texcoords = [], tvi = []\<rparr> = []
   \<and> draw_texcoords endpoint_line \<lparr>vertices = [], texcoords = [], tvi = []\<rparr>
        (Some \<lparr>rows = 0, cols = 100, mtype = CV_8UC3, data = None\<rparr>)
      \<noteq> Some \<lparr>rows = 0, cols = 100, mtype = CV_8UC3, data = None\<rparr>"
  by (simp add: draw_texcoords_def Mat_empty_def Mat_filled_def)

section \<open>Wireframe: three edges or none\<close>

text \<open>
  C1. \<open>draw_wireframe\<close> does to the image exactly what the calls of its triangles do,
  triangle after triangle, with any line primitive, projector and classifier. For every
  triangle of the mesh whose calls are defined, with \<open>p1\<close>, \<open>p2\<close>, \<open>p3\<close> the projected
  vertices: if the classifier says counter-clockwise, the calls are the three edges
  \<open>p1\<close>-\<open>p2\<close>, \<open>p2\<close>-\<open>p3\<close>, \<open>p3\<close>-\<open>p1\<close> between the pixel points, in the colour
  given (or the default); if not, there is no call. (The calls are undefined, and so is
  the result, when an index is out of range or a coordinate of an edge does not fit an
  \<open>int\<close>.)
\<close>

theorem draw_wireframe_all_or_nothing:
  "draw_wireframe line_fn project_fn ccw_fn img mesh modelview projection viewport color_arg =
     map_option (\<lambda>cs. replay line_fn img (concat cs))
       (those (map (triangle_edges project_fn ccw_fn mesh modelview projection viewport
                      (edge_color color_arg)) (tvi mesh)))
   \<and> (\<forall>(t0, t1, t2) \<in> set (tvi mesh). \<forall>es.
        triangle_edges project_fn ccw_fn mesh modelview projection viewport
          (edge_color color_arg) (t0, t1, t2) = Some es \<longrightarrow>
        (\<exists>p1 p2 p3.
           screen_point project_fn mesh modelview projection viewport t0 = Some p1
         \<and> screen_point project_fn mesh modelview projection viewport t1 = Some p2
         \<and> screen_point project_fn mesh modelview projection viewport t2 = Some p3
         \<and> (if ccw_fn (head2 p1) (head2 p2) (head2 p3)
            then \<exists>q1 q2 q3. pixel_point p1 = Some q1 \<and> pixel_point p2 = Some q2
                   \<and> pixel_point p3 = Some q3
                   \<and> es = [Line q1 q2 (edge_color color_arg), Line q2 q3 (edge_color color_arg),
                           Line q3 q1 (edge_color color_arg)]
            else es = [])))"
  using triangle_edges_cases draw_wireframe_replay by fast

theorem draw_wireframe_all_or_nothing_witness:
  "draw_wireframe endpoint_line project are_vertices_ccw_in_screen_space black3x3 two_sided_mesh
     identity4 identity4 (0, 0, 2, 2) (Some (Scalar 0 0 255 255))
   = Some (replay endpoint_line black3x3
       [Line (Point 1 1) (Point 2 1) (Scalar 0 0 255 255),
        Line (Point 2 1) (Point 1 0) (Scalar 0 0 255 255),
        Line (Point 1 0) (Point 1 1) (Scalar 0 0 255 255)])
   \<and> (0, 1, 2) \<in> set (tvi two_sided_mesh) \<and> (0, 2, 1) \<in> set (tvi two_sided_mesh)
   \<and> are_vertices_ccw_in_screen_space (head2 (1, 1, 0)) (head2 (2, 1, 0)) (head2 (1, 0, 0))
   \<and> \<not> are_vertices_ccw_in_screen_space (head2 (1, 1, 0)) (head2 (1, 0, 0)) (head2 (2, 1, 0))"
  using draw_wireframe_all_or_nothing
    [of endpoint_line project are_vertices_ccw_in_screen_space black3x3 two_sided_mesh
        identity4 identity4 "(0, 0, 2, 2)" "Some (Scalar 0 0 255 255)"]
  by (simp add: triangle_edges_two_sided ccw_two_sided edge_color_def tvi_two_sided)

section \<open>Texture coordinates: every triangle, three edges\<close>

text \<open>
  C4. With a line primitive that does not resize the image, \<open>draw_texcoords\<close> does to its
  canvas exactly what the calls of its triangles do, triangle after triangle, and no
  triangle is tested or left out: for every triangle of the mesh whose three texture
  coordinates exist, the calls are its three edges, each end point being the texture
  coordinate with \<open>u\<close> multiplied by the width of the canvas (\<open>cols\<close>) and \<open>v\<close> by its
  height (\<open>rows\<close>). (The result is undefined when an index has no texture coordinate.)
\<close>

theorem draw_texcoords_all_edges:
  assumes "keeps_size line_fn"
  shows "draw_texcoords line_fn mesh image_arg =
           map_option (\<lambda>cs. replay line_fn (canvas image_arg) (concat cs))
             (those (map (uv_edges mesh (canvas image_arg)) (tvi mesh)))
       \<and> (\<forall>(t0, t1, t2) \<in> set (tvi mesh). \<forall>es.
            uv_edges mesh (canvas image_arg) (t0, t1, t2) = Some es \<longrightarrow>
            (\<exists>u0 v0 u1 v1 u2 v2.
               vec_at (texcoords mesh) t0 = Some (u0, v0)
             \<and> vec_at (texcoords mesh) t1 = Some (u1, v1)
             \<and> vec_at (texcoords mesh) t2 = Some (u2, v2)
             \<and> es = (let w = of_int (cols (canvas image_arg));
                          h = of_int (rows (canvas image_arg))
                      in [Line (Point2f (u0 * w) (v0 * h)) (Point2f (u1 * w) (v1 * h))
                            (Scalar 255 0 0 0),
                          Line (Point2f (u1 * w) (v1 * h)) (Point2f (u2 * w) (v2 * h))
                            (Scalar 255 0 0 0),
                          Line (Point2f (u2 * w) (v2 * h)) (Point2f (u0 * w) (v0 * h))
                            (Scalar 255 0 0 0)])))"
proof -
  have "\<exists>u0 v0 u1 v1 u2 v2.
               vec_at (texcoords mesh) t0 = Some (u0, v0)
             \<and> vec_at (texcoords mesh) t1 = Some (u1, v1)
             \<and> vec_at (texcoords mesh) t2 = Some (u2, v2)
             \<and> es = (let w = of_int (cols (canvas image_arg));
                          h = of_int (rows (canvas image_arg))
                      in [Line (Point2f (u0 * w) (v0 * h)) (Point2f (u1 * w) (v1 * h))
                            (Scalar 255 0 0 0),
                          Line (Point2f (u1 * w) (v1 * h)) (Point2f (u2 * w) (v2 * h))
                            (Scalar 255 0 0 0),
                          Line (Point2f (u2 * w) (v2 * h)) (Point2f (u0 * w) (v0 * h))
                            (Scalar 255 0 0 0)])"
    if "uv_edges mesh (canvas image_arg) (t0, t1, t2) = Some es" for t0 t1 t2 es
  proof -
    from uv_edges_cases [OF that] obtain c0 c1 c2 where
      c: "vec_at (texcoords mesh) t0 = Some c0" "vec_at (texcoords mesh) t1 = Some c1"
         "vec_at (texcoords mesh) t2 = Some c2"
      and es: "es = [Line (uv_point (canvas image_arg) c0) (uv_point (canvas image_arg) c1)
                       (Scalar 255 0 0 0),
                     Line (uv_point (canvas image_arg) c1) (uv_point (canvas image_arg) c2)
                       (Scalar 255 0 0 0),
                     Line (uv_point (canvas image_arg) c2) (uv_point (canvas image_arg) c0)
                       (Scalar 255 0 0 0)]"
      by blast
    obtain u0 v0 u1 v1 u2 v2 where "c0 = (u0, v0)" "c1 = (u1, v1)" "c2 = (u2, v2)"
      by (cases c0, cases c1, cases c2) blast
    with c es show ?thesis by (simp add: uv_point_def Let_def)
  qed
  with draw_texcoords_replay [OF assms] show ?thesis by fast
qed

theorem draw_texcoords_all_edges_witness:
  "keeps_size endpoint_line
   \<and> draw_texcoords endpoint_line two_sided_mesh (Some black3x3) =
       Some (replay endpoint_line black3x3
         [Line (Point2f 0 0) (Point2f 3 0) (Scalar 255 0 0 0),
          Line (Point2f 3 0) (Point2f 0 3) (Scalar 255 0 0 0),
          Line (Point2f 0 3) (Point2f 0 0) (Scalar 255 0 0 0),
          Line (Point2f 0 0) (Point2f 0 3) (Scalar 255 0 0 0),
          Line (Point2f 0 3) (Point2f 3 0) (Scalar 255 0 0 0),
          Line (Point2f 3 0) (Point2f 0 0) (Scalar 255 0 0 0)])
   \<and> (0, 1, 2) \<in> set (tvi two_sided_mesh)"
  using draw_texcoords_all_edges [OF keeps_size_endpoint_line, of two_sided_mesh "Some black3x3"]
  by (simp add: keeps_size_endpoint_line canvas_black3x3 tvi_two_sided uv_edges_two_sided
        size_black3x3)

section \<open>End points: truncated pixels for the wireframe, floats for the texture coordinates\<close>

text \<open>
  C10. Where \<open>draw_wireframe\<close> is defined, every call it makes hands \<open>cv::line\<close> two
  \<open>cv::Point\<close>s whose coordinates are the \<open>x\<close> and \<open>y\<close> of two projected vertices,
  truncated to integers. Where \<open>draw_texcoords\<close> is defined, with a line primitive that
  does not resize the image, every call it makes hands \<open>cv::line\<close> two \<open>cv::Point2f\<close>s
  whose coordinates are the products of a texture coordinate with the width and the height
  of the canvas, not truncated. Each half holds on its own: a mesh without texture
  coordinates is covered by the first.
\<close>

theorem endpoints_truncated_or_float:
  "(those (map (triangle_edges project_fn ccw_fn mesh modelview projection viewport
              (edge_color color_arg)) (tvi mesh)) = Some wire \<longrightarrow>
      draw_wireframe line_fn project_fn ccw_fn img mesh modelview projection viewport color_arg
        = Some (replay line_fn img (concat wire))
    \<and> (\<forall>call \<in> set (concat wire).
         \<exists>p \<in> (\<lambda>w. project_fn w modelview projection viewport) ` set (vertices mesh).
         \<exists>q \<in> (\<lambda>w. project_fn w modelview projection viewport) ` set (vertices mesh).
           call = Line (Point (trunc (vec_x p)) (trunc (vec_y p)))
                       (Point (trunc (vec_x q)) (trunc (vec_y q))) (edge_color color_arg)))
   \<and> (keeps_size line_fn
       \<and> those (map (uv_edges mesh (canvas image_arg)) (tvi mesh)) = Some uv \<longrightarrow>
      draw_texcoords line_fn mesh image_arg
        = Some (replay line_fn (canvas image_arg) (concat uv))
    \<and> (\<forall>call \<in> set (concat uv).
         \<exists>(u, v) \<in> set (texcoords mesh). \<exists>(u', v') \<in> set (texcoords mesh).
           call = Line (Point2f (u * of_int (cols (canvas image_arg)))
                                (v * of_int (rows (canvas image_arg))))
                       (Point2f (u' * of_int (cols (canvas image_arg)))
                                (v' * of_int (rows (canvas image_arg))))
                       (Scalar 255 0 0 0)))"
proof (intro conjI impI)
  let ?P = "(\<lambda>w. project_fn w modelview projection viewport) ` set (vertices mesh)"
  assume wire: "those (map (triangle_edges project_fn ccw_fn mesh modelview projection viewport
                     (edge_color color_arg)) (tvi mesh)) = Some wire"
  show "draw_wireframe line_fn project_fn ccw_fn img mesh modelview projection viewport
             color_arg = Some (replay line_fn img (concat wire))"
    by (simp add: draw_wireframe_replay wire)
  have b: "\<exists>p \<in> ?P. \<exists>q \<in> ?P.
              call = Line (Point (trunc (vec_x p)) (trunc (vec_y p)))
                          (Point (trunc (vec_x q)) (trunc (vec_y q))) (edge_color color_arg)"
    if "call \<in> set (concat wire)" for call
  proof -
    from that obtain es where es: "es \<in> set wire" "call \<in> set es" by auto
    from those_SomeD [OF wire es(1)] obtain t0 t1 t2 where
      t: "triangle_edges project_fn ccw_fn mesh modelview projection viewport
            (edge_color color_arg) (t0, t1, t2) = Some es"
      by auto
    from triangle_edges_cases [OF t] obtain p1 p2 p3 where
      p: "screen_point project_fn mesh modelview projection viewport t0 = Some p1"
         "screen_point project_fn mesh modelview projection viewport t1 = Some p2"
         "screen_point project_fn mesh modelview projection viewport t2 = Some p3"
      and shape: "if ccw_fn (head2 p1) (head2 p2) (head2 p3)
            then \<exists>q1 q2 q3. pixel_point p1 = Some q1 \<and> pixel_point p2 = Some q2
                   \<and> pixel_point p3 = Some q3
                   \<and> es = [Line q1 q2 (edge_color color_arg), Line q2 q3 (edge_color color_arg),
                           Line q3 q1 (edge_color color_arg)]
            else es = []"
      by blast
    from p have mem: "p1 \<in> ?P" "p2 \<in> ?P" "p3 \<in> ?P"
      by (auto dest: screen_point_SomeD)
    from shape es(2) obtain q1 q2 q3 where
      q: "pixel_point p1 = Some q1" "pixel_point p2 = Some q2" "pixel_point p3 = Some q3"
      and es': "es = [Line q1 q2 (edge_color color_arg), Line q2 q3 (edge_color color_arg),
                      Line q3 q1 (edge_color color_arg)]"
      by (auto split: if_splits)
    from q have "q1 = Point (trunc (vec_x p1)) (trunc (vec_y p1))"
      "q2 = Point (trunc (vec_x p2)) (trunc (vec_y p2))"
      "q3 = Point (trunc (vec_x p3)) (trunc (vec_y p3))"
      by (auto dest: pixel_point_SomeD)
    with es' es(2) mem show ?thesis by auto
  qed
  then show "\<forall>call \<in> set (concat wire). \<exists>p \<in> ?P. \<exists>q \<in> ?P.
              call = Line (Point (trunc (vec_x p)) (trunc (vec_y p)))
                          (Point (trunc (vec_x q)) (trunc (vec_y q))) (edge_color color_arg)"
    by blast
next
  assume "keeps_size line_fn
          \<and> those (map (uv_edges mesh (canvas image_arg)) (tvi mesh)) = Some uv"
  then have size: "keeps_size line_fn"
    and uv: "those (map (uv_edges mesh (canvas image_arg)) (tvi mesh)) = Some uv"
    by simp_all
  show "draw_texcoords line_fn mesh image_arg
             = Some (replay line_fn (canvas image_arg) (concat uv))"
    by (simp add: draw_texcoords_replay [OF size] uv)
  have d: "\<exists>(u, v) \<in> set (texcoords mesh). \<exists>(u', v') \<in> set (texcoords mesh).
              call = Line (Point2f (u * of_int (cols (canvas image_arg)))
                                   (v * of_int (rows (canvas image_arg))))
                          (Point2f (u' * of_int (cols (canvas image_arg)))
                                   (v' * of_int (rows (canvas image_arg))))
                          (Scalar 255 0 0 0)"
    if "call \<in> set (concat uv)" for call
  proof -
    from that obtain es where es: "es \<in> set uv" "call \<in> set es" by auto
    from those_SomeD [OF uv es(1)] obtain t0 t1 t2 where
      t: "uv_edges mesh (canvas image_arg) (t0, t1, t2) = Some es"
      by auto
    from uv_edges_cases [OF t] obtain c0 c1 c2 where
      c: "vec_at (texcoords mesh) t0 = Some c0" "vec_at (texcoords mesh) t1 = Some c1"
         "vec_at (texcoords mesh) t2 = Some c2"
      and es': "es = [Line (uv_point (canvas image_arg) c0) (uv_point (canvas image_arg) c1)
                       (Scalar 255 0 0 0),
                     Line (uv_point (canvas image_arg) c1) (uv_point (canvas image_arg) c2)
                       (Scalar 255 0 0 0),
                     Line (uv_point (canvas image_arg) c2) (uv_point (canvas image_arg) c0)
                       (Scalar 255 0 0 0)]"
      by blast
    from c have mem: "c0 \<in> set (texcoords mesh)" "c1 \<in> set (texcoords mesh)"
      "c2 \<in> set (texcoords mesh)"
      by (auto dest: vec_at_SomeD)
    from es(2) es' consider "call = Line (uv_point (canvas image_arg) c0)
          (uv_point (canvas image_arg) c1) (Scalar 255 0 0 0)"
      | "call = Line (uv_point (canvas image_arg) c1)
          (uv_point (canvas image_arg) c2) (Scalar 255 0 0 0)"
      | "call = Line (uv_point (canvas image_arg) c2)
          (uv_point (canvas image_arg) c0) (Scalar 255 0 0 0)"
      by auto
    then show ?thesis
    proof cases
      case 1
      with mem(1,2) show ?thesis
        by (intro bexI [of _ c0] bexI [of _ c1]) (auto simp: uv_point_def split: prod.splits)
    next
      case 2
      with mem(2,3) show ?thesis
        by (intro bexI [of _ c1] bexI [of _ c2]) (auto simp: uv_point_def split: prod.splits)
    next
      case 3
      with mem(1,3) show ?thesis
        by (intro bexI [of _ c2] bexI [of _ c0]) (auto simp: uv_point_def split: prod.splits)
    qed
  qed
  then show "\<forall>call \<in> set (concat uv).
         \<exists>(u, v) \<in> set (texcoords mesh). \<exists>(u', v') \<in> set (texcoords mesh).
           call = Line (Point2f (u * of_int (cols (canvas image_arg)))
                                (v * of_int (rows (canvas image_arg))))
                       (Point2f (u' * of_int (cols (canvas image_arg)))
                                (v' * of_int (rows (canvas image_arg))))
                       (Scalar 255 0 0 0)"
    by blast
qed

theorem endpoints_truncated_or_float_witness:
  "those (map (triangle_edges project are_vertices_ccw_in_screen_space two_sided_mesh
         identity4 identity4 (- 3, 0, 3, 3) (edge_color None)) (tvi two_sided_mesh))
     = Some [[Line (Point (- 1) 1) (Point 0 1) (Scalar 0 255 0 255),
              Line (Point 0 1) (Point (- 1) 0) (Scalar 0 255 0 255),
              Line (Point (- 1) 0) (Point (- 1) 1) (Scalar 0 255 0 255)], []]
   \<and> those (map (uv_edges two_sided_mesh (canvas (Some black3x3))) (tvi two_sided_mesh))
     = Some [[Line (Point2f 0 0) (Point2f 3 0) (Scalar 255 0 0 0),
              Line (Point2f 3 0) (Point2f 0 3) (Scalar 255 0 0 0),
              Line (Point2f 0 3) (Point2f 0 0) (Scalar 255 0 0 0)],
             [Line (Point2f 0 0) (Point2f 0 3) (Scalar 255 0 0 0),
              Line (Point2f 0 3) (Point2f 3 0) (Scalar 255 0 0 0),
              Line (Point2f 3 0) (Point2f 0 0) (Scalar 255 0 0 0)]]
   \<and> keeps_size endpoint_line
   \<and> project (0, 0, 0) identity4 identity4 (- 3, 0, 3, 3) = (- 3 / 2, 3 / 2, 0)
   \<and> draw_wireframe endpoint_line project are_vertices_ccw_in_screen_space black3x3
        two_sided_mesh identity4 identity4 (- 3, 0, 3, 3) None
     = Some (replay endpoint_line black3x3
         [Line (Point (- 1) 1) (Point 0 1) (Scalar 0 255 0 255),
          Line (Point 0 1) (Point (- 1) 0) (Scalar 0 255 0 255),
          Line (Point (- 1) 0) (Point (- 1) 1) (Scalar 0 255 0 255)])
   \<and> draw_texcoords endpoint_line two_sided_mesh (Some black3x3)
     = Some (replay endpoint_line black3x3
         [Line (Point2f 0 0) (Point2f 3 0) (Scalar 255 0 0 0),
          Line (Point2f 3 0) (Point2f 0 3) (Scalar 255 0 0 0),
          Line (Point2f 0 3) (Point2f 0 0) (Scalar 255 0 0 0),
          Line (Point2f 0 0) (Point2f 0 3) (Scalar 255 0 0 0),
          Line (Point2f 0 3) (Point2f 3 0) (Scalar 255 0 0 0),
          Line (Point2f 3 0) (Point2f 0 0) (Scalar 255 0 0 0)])"
proof -
  have wire: "those (map (triangle_edges project are_vertices_ccw_in_screen_space two_sided_mesh
         identity4 identity4 (- 3, 0, 3, 3) (edge_color None)) (tvi two_sided_mesh))
     = Some [[Line (Point (- 1) 1) (Point 0 1) (Scalar 0 255 0 255),
              Line (Point 0 1) (Point (- 1) 0) (Scalar 0 255 0 255),
              Line (Point (- 1) 0) (Point (- 1) 1) (Scalar 0 255 0 255)], []]"
    by (simp add: tvi_two_sided triangle_edges_shifted edge_color_def)
  have uv: "those (map (uv_edges two_sided_mesh (canvas (Some black3x3))) (tvi two_sided_mesh))
     = Some [[Line (Point2f 0 0) (Point2f 3 0) (Scalar 255 0 0 0),
              Line (Point2f 3 0) (Point2f 0 3) (Scalar 255 0 0 0),
              Line (Point2f 0 3) (Point2f 0 0) (Scalar 255 0 0 0)],
             [Line (Point2f 0 0) (Point2f 0 3) (Scalar 255 0 0 0),
              Line (Point2f 0 3) (Point2f 3 0) (Scalar 255 0 0 0),
              Line (Point2f 3 0) (Point2f 0 0) (Scalar 255 0 0 0)]]"
    by (simp add: tvi_two_sided uv_edges_two_sided canvas_black3x3 size_black3x3)
  have p: "project (0, 0, 0) identity4 identity4 (- 3, 0, 3, 3) = (- 3 / 2, 3 / 2, 0)"
    by (simp add: project_def mat_vec_def identity4_def)
  from endpoints_truncated_or_float
    [where project_fn = project and ccw_fn = are_vertices_ccw_in_screen_space
       and mesh = two_sided_mesh and modelview = identity4 and projection = identity4
       and viewport = "(- 3, 0, 3, 3)" and color_arg = None and line_fn = endpoint_line
       and img = black3x3 and image_arg = "Some black3x3"
       and wire = "[[Line (Point (- 1) 1) (Point 0 1) (Scalar 0 255 0 255),
              Line (Point 0 1) (Point (- 1) 0) (Scalar 0 255 0 255),
              Line (Point (- 1) 0) (Point (- 1) 1) (Scalar 0 255 0 255)], []]"
       and uv = "[[Line (Point2f 0 0) (Point2f 3 0) (Scalar 255 0 0 0),
              Line (Point2f 3 0) (Point2f 0 3) (Scalar 255 0 0 0),
              Line (Point2f 0 3) (Point2f 0 0) (Scalar 255 0 0 0)],
             [Line (Point2f 0 0) (Point2f 0 3) (Scalar 255 0 0 0),
              Line (Point2f 0 3) (Point2f 3 0) (Scalar 255 0 0 0),
              Line (Point2f 3 0) (Point2f 0 0) (Scalar 255 0 0 0)]]"]
  show ?thesis
    using wire uv p keeps_size_endpoint_line canvas_black3x3 by simp
qed

section \<open>The canvas of the texture-coordinate renderer\<close>

text \<open>
  C5 (amended). Called without an image, \<open>draw_texcoords\<close> draws into, and returns, a
  canvas it allocates: 512 rows, 512 columns, 4 channels, every pixel black with the alpha
  channel at its maximum 255. Called with an image that is not empty, it draws into that
  image and returns it. Called with an image that is empty (no pixel buffer, or no rows, or
  no columns), it does what it does without an image.
\<close>

theorem draw_texcoords_canvas_choice:
  "draw_texcoords line_fn mesh None =
     for_each (texcoords_triangle line_fn mesh)
       (Mat_filled 512 512 CV_8UC4 (Scalar 0 0 0 255)) (tvi mesh)
   \<and> rows (Mat_filled 512 512 CV_8UC4 (Scalar 0 0 0 255)) = 512
   \<and> cols (Mat_filled 512 512 CV_8UC4 (Scalar 0 0 0 255)) = 512
   \<and> channels (mtype (Mat_filled 512 512 CV_8UC4 (Scalar 0 0 0 255))) = 4
   \<and> data (Mat_filled 512 512 CV_8UC4 (Scalar 0 0 0 255))
       = Some (replicate 512 (replicate 512 [0, 0, 0, 255]))
   \<and> (\<not> Mat_empty m \<longrightarrow>
        draw_texcoords line_fn mesh (Some m) =
          for_each (texcoords_triangle line_fn mesh) m (tvi mesh))
   \<and> (Mat_empty m \<longrightarrow>
        draw_texcoords line_fn mesh (Some m) = draw_texcoords line_fn mesh None)"
  by (simp add: draw_texcoords_canvas canvas_def Mat_filled_def pixel_of_def cvRound_def)

theorem draw_texcoords_canvas_choice_witness:
  "\<not> Mat_empty black3x3
   \<and> draw_texcoords endpoint_line two_sided_mesh (Some black3x3) =
       for_each (texcoords_triangle endpoint_line two_sided_mesh) black3x3 (tvi two_sided_mesh)
   \<and> Mat_empty \<lparr>rows = 0, cols = 7, mtype = CV_8UC3, data = None\<rparr>
   \<and> draw_texcoords endpoint_line two_sided_mesh
        (Some \<lparr>rows = 0, cols = 7, mtype = CV_8UC3, data = None\<rparr>)
       = draw_texcoords endpoint_line two_sided_mesh None"
proof -
  have e: "Mat_empty \<lparr>rows = 0, cols = 7, mtype = CV_8UC3, data = None\<rparr>"
    by (simp add: Mat_empty_def)
  from draw_texcoords_canvas_choice [of endpoint_line two_sided_mesh black3x3]
    draw_texcoords_canvas_choice [of endpoint_line two_sided_mesh
      "\<lparr>rows = 0, cols = 7, mtype = CV_8UC3, data = None\<rparr>"]
  show ?thesis using e black3x3_not_empty by simp
qed

text \<open>
  C5 as stated fails for an image that is given and empty: the result is not that image
  drawn into.
\<close>

theorem supplied_empty_canvas_replaced:
  "draw_texcoords endpoint_line two_sided_mesh
     (Some \<lparr>rows = 0, cols = 7, mtype = CV_8UC3, data = None\<rparr>)
   \<noteq> for_each (texcoords_triangle endpoint_line two_sided_mesh)
       \<lparr>rows = 0, cols = 7, mtype = CV_8UC3, data = None\<rparr> (tvi two_sided_mesh)"
proof -
  let ?m = "\<lparr>rows = 0, cols = 7, mtype = CV_8UC3, data = None\<rparr>"
  let ?cv = "Mat_filled 512 512 CV_8UC4 (Scalar 0 0 0 255)"
  have cv: "canvas (Some ?m) = ?cv"
    by (simp add: canvas_def Mat_empty_def)
  have "those (map (uv_edges two_sided_mesh ?cv) (tvi two_sided_mesh)) \<noteq> None"
    by (simp add: tvi_two_sided uv_edges_two_sided)
  then obtain uv where uv: "those (map (uv_edges two_sided_mesh ?cv) (tvi two_sided_mesh)) = Some uv"
    by blast
  have l: "draw_texcoords endpoint_line two_sided_mesh (Some ?m)
           = Some (replay endpoint_line ?cv (concat uv))"
    by (simp add: draw_texcoords_replay [OF keeps_size_endpoint_line] cv uv)
  have "those (map (uv_edges two_sided_mesh ?m) (tvi two_sided_mesh)) \<noteq> None"
    by (simp add: tvi_two_sided uv_edges_two_sided)
  then obtain uv' where uv': "those (map (uv_edges two_sided_mesh ?m) (tvi two_sided_mesh)) = Some uv'"
    by blast
  have r: "for_each (texcoords_triangle endpoint_line two_sided_mesh) ?m (tvi two_sided_mesh)
           = Some (replay endpoint_line ?m (concat uv'))"
    by (simp add: texcoords_loop_replay [OF keeps_size_endpoint_line] uv')
  have "rows (replay endpoint_line ?cv (concat uv)) = 512"
    using replay_keeps_size [OF keeps_size_endpoint_line, of ?cv "concat uv"]
    by (simp add: Mat_filled_def)
  moreover have "rows (replay endpoint_line ?m (concat uv')) = 0"
    using replay_keeps_size [OF keeps_size_endpoint_line, of ?m "concat uv'"]
    by simp
  ultimately show ?thesis using l r by auto
qed

section \<open>Determinism of the wireframe renderer\<close>

text \<open>
  C9. Two runs of \<open>draw_wireframe\<close> with the same mesh, transforms, viewport and colour,
  on two images related by any relation that the line primitive preserves (such as having
  identical pixel contents), are both undefined or end with images that are related again.
  With identical pixel contents as the relation: identical before, identical after.
\<close>

theorem draw_wireframe_deterministic:
  assumes "R img1 img2"
      and "\<forall>a b p q c. R a b \<longrightarrow> R (line_fn a p q c) (line_fn b p q c)"
  shows "rel_option R
           (draw_wireframe line_fn project_fn ccw_fn img1 mesh modelview projection viewport
              color_arg)
           (draw_wireframe line_fn project_fn ccw_fn img2 mesh modelview projection viewport
              color_arg)"
proof -
  have step: "R (line_fn a p q c) (line_fn b p q c)" if "R a b" for a b p q c
    using assms(2) that by blast
  have "R (replay line_fn img1 cs) (replay line_fn img2 cs)" for cs
    using step assms(1) by (rule replay_rel [where R = R])
  then show ?thesis
    by (cases "those (map (triangle_edges project_fn ccw_fn mesh modelview projection viewport
                 (edge_color color_arg)) (tvi mesh))")
       (simp_all add: draw_wireframe_replay)
qed

theorem draw_wireframe_deterministic_witness:
  "same_pixels black3x3 (Mat_filled 3 3 CV_8UC4 (Scalar 0 0 0 255))
   \<and> rel_option same_pixels
        (draw_wireframe endpoint_line project are_vertices_ccw_in_screen_space black3x3
           two_sided_mesh identity4 identity4 (0, 0, 2, 2) None)
        (draw_wireframe endpoint_line project are_vertices_ccw_in_screen_space
           (Mat_filled 3 3 CV_8UC4 (Scalar 0 0 0 255))
           two_sided_mesh identity4 identity4 (0, 0, 2, 2) None)
   \<and> draw_wireframe endpoint_line project are_vertices_ccw_in_screen_space black3x3
           two_sided_mesh identity4 identity4 (0, 0, 2, 2) None \<noteq> None"
proof -
  have s: "same_pixels black3x3 (Mat_filled 3 3 CV_8UC4 (Scalar 0 0 0 255))"
    by (simp add: same_pixels_def black3x3_def)
  have "same_pixels (endpoint_line a p q c) (endpoint_line b p q c)"
    if "same_pixels a b" for a b p q c
  proof -
    from that have "a = b" by (rule same_pixels_eq)
    then show ?thesis by (simp add: same_pixels_def)
  qed
  then have l: "\<forall>a b p q c. same_pixels a b \<longrightarrow>
             same_pixels (endpoint_line a p q c) (endpoint_line b p q c)"
    by blast
  have d: "draw_wireframe endpoint_line project are_vertices_ccw_in_screen_space black3x3
           two_sided_mesh identity4 identity4 (0, 0, 2, 2) None \<noteq> None"
    by (simp add: draw_wireframe_replay tvi_two_sided triangle_edges_two_sided)
  from draw_wireframe_deterministic [of same_pixels, OF s l] s l d show ?thesis by simp
qed

section \<open>The orientation classifier\<close>

text \<open>
  C2. For three screen points the classifier holds when the viewer, on a screen whose \<open>y\<close>
  axis points down, sees them turn counter-clockwise (winding \<open>1\<close>); it fails when they
  turn clockwise (winding \<open>- 1\<close>), and it fails when they are collinear (winding \<open>0\<close>,
  zero signed area).
\<close>

theorem ccw_classifier_winding:
  "(winding p1 p2 p3 = 1 \<longrightarrow> are_vertices_ccw_in_screen_space p1 p2 p3)
   \<and> (winding p1 p2 p3 = - 1 \<longrightarrow> \<not> are_vertices_ccw_in_screen_space p1 p2 p3)
   \<and> (winding p1 p2 p3 = 0 \<longrightarrow> \<not> are_vertices_ccw_in_screen_space p1 p2 p3)"
  by (simp add: winding_def ccw_signed_area signed_area2_flip sgn_if)

theorem ccw_classifier_winding_witness:
  "winding (0, 0) (0, 1) (1, 0) = 1 \<and> are_vertices_ccw_in_screen_space (0, 0) (0, 1) (1, 0)
   \<and> winding (0, 0) (1, 0) (0, 1) = - 1 \<and> \<not> are_vertices_ccw_in_screen_space (0, 0) (1, 0) (0, 1)
   \<and> winding (0, 0) (1, 1) (2, 2) = 0 \<and> \<not> are_vertices_ccw_in_screen_space (0, 0) (1, 1) (2, 2)"
  using ccw_classifier_winding [of "(0, 0)" "(0, 1)" "(1, 0)"]
    ccw_classifier_winding [of "(0, 0)" "(1, 0)" "(0, 1)"]
    ccw_classifier_winding [of "(0, 0)" "(1, 1)" "(2, 2)"]
  by (simp add: winding_def signed_area2_def flip_y_def)

text \<open>
  C7. The classification of three screen points does not change under the two cyclic
  permutations of the points, and for points that are not collinear it is negated by each
  of the three swaps of two points.
\<close>

theorem ccw_classifier_permutations:
  "are_vertices_ccw_in_screen_space p2 p3 p1 = are_vertices_ccw_in_screen_space p1 p2 p3
   \<and> are_vertices_ccw_in_screen_space p3 p1 p2 = are_vertices_ccw_in_screen_space p1 p2 p3
   \<and> (winding p1 p2 p3 \<noteq> 0 \<longrightarrow>
        are_vertices_ccw_in_screen_space p2 p1 p3 = (\<not> are_vertices_ccw_in_screen_space p1 p2 p3)
      \<and> are_vertices_ccw_in_screen_space p1 p3 p2 = (\<not> are_vertices_ccw_in_screen_space p1 p2 p3)
      \<and> are_vertices_ccw_in_screen_space p3 p2 p1 = (\<not> are_vertices_ccw_in_screen_space p1 p2 p3))"
proof -
  have rot: "signed_area2 p2 p3 p1 = signed_area2 p1 p2 p3"
    "signed_area2 p3 p1 p2 = signed_area2 p1 p2 p3"
    using signed_area2_rotate [of p2 p3 p1] signed_area2_rotate [of p3 p1 p2] by simp_all
  have swap: "signed_area2 p2 p1 p3 = - signed_area2 p1 p2 p3"
    "signed_area2 p1 p3 p2 = - signed_area2 p1 p2 p3"
    "signed_area2 p3 p2 p1 = - signed_area2 p1 p2 p3"
    using signed_area2_swap [of p2 p1 p3] signed_area2_swap [of p3 p1 p2]
      signed_area2_swap [of p2 p3 p1] rot by simp_all
  have w: "winding p1 p2 p3 \<noteq> 0 \<longleftrightarrow> signed_area2 p1 p2 p3 \<noteq> 0"
    by (simp add: winding_def signed_area2_flip sgn_if)
  show ?thesis
    unfolding ccw_signed_area rot swap w by auto
qed

theorem ccw_classifier_permutations_witness:
  "winding (0, 0) (0, 1) (1, 0) \<noteq> 0
   \<and> are_vertices_ccw_in_screen_space (0, 0) (0, 1) (1, 0)
   \<and> are_vertices_ccw_in_screen_space (0, 1) (1, 0) (0, 0)
   \<and> are_vertices_ccw_in_screen_space (1, 0) (0, 0) (0, 1)
   \<and> \<not> are_vertices_ccw_in_screen_space (0, 1) (0, 0) (1, 0)
   \<and> \<not> are_vertices_ccw_in_screen_space (0, 0) (1, 0) (0, 1)
   \<and> \<not> are_vertices_ccw_in_screen_space (1, 0) (0, 1) (0, 0)"
proof -
  have w: "winding (0, 0) (0, 1) (1, 0) \<noteq> 0"
    by (simp add: winding_def signed_area2_def flip_y_def)
  have c: "are_vertices_ccw_in_screen_space (0, 0) (0, 1) (1, 0)"
    by (simp add: are_vertices_ccw_in_screen_space_def)
  from ccw_classifier_permutations [of "(0, 1)" "(1, 0)" "(0, 0)"] w c show ?thesis by simp
qed

section \<open>The vertex projector\<close>

text \<open>
  C3. For a point \<open>(px, py, pz)\<close>, taken with \<open>w = 1\<close>, whose image under the model-view
  matrix and then the projection matrix is \<open>(cx, cy, cz, cw)\<close> with \<open>cw\<close> not zero, the
  projector divides \<open>cx\<close>, \<open>cy\<close> and \<open>cz\<close> by \<open>cw\<close> and returns the screen position with
  \<open>x = viewport.x + (cx / cw + 1) / 2 * viewport.width\<close>,
  \<open>y = viewport.y + (1 - cy / cw) / 2 * viewport.height\<close> and depth \<open>cz / cw\<close>; the result
  is a function of the point, the two matrices and the viewport alone.
\<close>

theorem project_formula:
  assumes "mat_vec projection (mat_vec modelview (px, py, pz, 1)) = (cx, cy, cz, cw)"
      and "cw \<noteq> 0"
  shows "project (px, py, pz) modelview projection (vx, vy, vw, vh)
           = (vx + (cx / cw + 1) / 2 * vw, vy + (1 - cy / cw) / 2 * vh, cz / cw)
       \<and> vec_x (project (px, py, pz) modelview projection (vx, vy, vw, vh))
           = vx + (cx / cw + 1) / 2 * vw
       \<and> vec_y (project (px, py, pz) modelview projection (vx, vy, vw, vh))
           = vy + (1 - cy / cw) / 2 * vh
       \<and> vec_z (project (px, py, pz) modelview projection (vx, vy, vw, vh))
           = cz / cw"
  using assms by (simp add: project_def vec_x_def vec_y_def vec_z_def)

theorem project_formula_witness:
  "mat_vec ((1, 0, 0, 0), (0, 1, 0, 0), (0, 0, 1, 0), (0, 0, - 1, 0))
     (mat_vec ((1, 0, 0, 0), (0, 1, 0, 0), (0, 0, 1, - 5), (0, 0, 0, 1)) (1, 2, 1, 1))
   = (1, 2, - 4, 4)
   \<and> (4::real) \<noteq> 0
   \<and> project (1, 2, 1) ((1, 0, 0, 0), (0, 1, 0, 0), (0, 0, 1, - 5), (0, 0, 0, 1))
        ((1, 0, 0, 0), (0, 1, 0, 0), (0, 0, 1, 0), (0, 0, - 1, 0)) (0, 0, 640, 480)
     = (400, 120, - 1)
   \<and> vec_x (project (1, 2, 1) ((1, 0, 0, 0), (0, 1, 0, 0), (0, 0, 1, - 5), (0, 0, 0, 1))
        ((1, 0, 0, 0), (0, 1, 0, 0), (0, 0, 1, 0), (0, 0, - 1, 0)) (0, 0, 640, 480)) = 400
   \<and> vec_y (project (1, 2, 1) ((1, 0, 0, 0), (0, 1, 0, 0), (0, 0, 1, - 5), (0, 0, 0, 1))
        ((1, 0, 0, 0), (0, 1, 0, 0), (0, 0, 1, 0), (0, 0, - 1, 0)) (0, 0, 640, 480)) = 120
   \<and> vec_z (project (1, 2, 1) ((1, 0, 0, 0), (0, 1, 0, 0), (0, 0, 1, - 5), (0, 0, 0, 1))
        ((1, 0, 0, 0), (0, 1, 0, 0), (0, 0, 1, 0), (0, 0, - 1, 0)) (0, 0, 640, 480)) = - 1"
proof -
  have m: "mat_vec ((1, 0, 0, 0), (0, 1, 0, 0), (0, 0, 1, 0), (0, 0, - 1, 0))
     (mat_vec ((1, 0, 0, 0), (0, 1, 0, 0), (0, 0, 1, - 5), (0, 0, 0, 1)) (1, 2, 1, 1))
   = (1, 2, - 4, 4)"
    by (simp add: mat_vec_def)
  have n: "(4::real) \<noteq> 0" by simp
  from project_formula [OF m n, where vx = 0 and vy = 0 and vw = 640 and vh = 480] m
  show ?thesis by (simp add: vec_x_def vec_y_def vec_z_def)
qed

section \<open>Colours\<close>

text \<open>
  C6. The colour of the edges \<open>draw_texcoords\<close> draws is fixed, but it is not opaque:
  \<open>cv::Scalar(255.0f, 0.0f, 0.0f)\<close> leaves the fourth channel at zero. Run without an
  image on the mesh of two triangles, every call passes \<open>(255, 0, 0, 0)\<close>, and with the
  end-point primitive the top left pixel of the returned 4-channel canvas is
  \<open>(255, 0, 0, 0)\<close>: alpha 0, next to a background of alpha 255. The default colour of
  \<open>draw_wireframe\<close> is \<open>(0, 255, 0, 255)\<close>, green with full alpha.
\<close>

theorem uv_edges_drawn_transparent:
  "draw_texcoords endpoint_line two_sided_mesh None
     = Some (replay endpoint_line (Mat_filled 512 512 CV_8UC4 (Scalar 0 0 0 255))
         [Line (Point2f 0 0) (Point2f 512 0) (Scalar 255 0 0 0),
          Line (Point2f 512 0) (Point2f 0 512) (Scalar 255 0 0 0),
          Line (Point2f 0 512) (Point2f 0 0) (Scalar 255 0 0 0),
          Line (Point2f 0 0) (Point2f 0 512) (Scalar 255 0 0 0),
          Line (Point2f 0 512) (Point2f 512 0) (Scalar 255 0 0 0),
          Line (Point2f 512 0) (Point2f 0 0) (Scalar 255 0 0 0)])
   \<and> draw_texcoords endpoint_line two_sided_mesh None = Some corner
   \<and> map_option (\<lambda>px. px ! 0 ! 0) (data corner) = Some [255, 0, 0, 0]
   \<and> val3 (Scalar3 255 0 0) = 0
   \<and> edge_color None = Scalar 0 255 0 255"
proof -
  have calls: "draw_texcoords endpoint_line two_sided_mesh None
     = Some (replay endpoint_line (Mat_filled 512 512 CV_8UC4 (Scalar 0 0 0 255))
         [Line (Point2f 0 0) (Point2f 512 0) (Scalar 255 0 0 0),
          Line (Point2f 512 0) (Point2f 0 512) (Scalar 255 0 0 0),
          Line (Point2f 0 512) (Point2f 0 0) (Scalar 255 0 0 0),
          Line (Point2f 0 0) (Point2f 0 512) (Scalar 255 0 0 0),
          Line (Point2f 0 512) (Point2f 512 0) (Scalar 255 0 0 0),
          Line (Point2f 512 0) (Point2f 0 0) (Scalar 255 0 0 0)])"
    by (simp add: draw_texcoords_replay [OF keeps_size_endpoint_line] canvas_def tvi_two_sided
          uv_edges_two_sided size_Mat_filled)
  have drawn: "replay endpoint_line (Mat_filled 512 512 CV_8UC4 (Scalar 0 0 0 255))
         [Line (Point2f 0 0) (Point2f 512 0) (Scalar 255 0 0 0),
          Line (Point2f 512 0) (Point2f 0 512) (Scalar 255 0 0 0),
          Line (Point2f 0 512) (Point2f 0 0) (Scalar 255 0 0 0),
          Line (Point2f 0 0) (Point2f 0 512) (Scalar 255 0 0 0),
          Line (Point2f 0 512) (Point2f 512 0) (Scalar 255 0 0 0),
          Line (Point2f 512 0) (Point2f 0 0) (Scalar 255 0 0 0)] = corner"
    by (simp add: replay_def endpoint_line_def plot_fresh_origin plot_corner_origin
          plot_corner_outside)
  have pixel: "map_option (\<lambda>px. px ! 0 ! 0) (data corner) = Some [255, 0, 0, 0]"
    by (simp add: corner_def)
  show ?thesis
    using calls drawn pixel by (simp add: Scalar3_def edge_color_def)
qed

end
